theory Spec2Isabelle
  imports Main
begin

section \<open>Data model (src/App.Types.tsx)\<close>

text \<open>
  Row and column indices are the non-negative integers JavaScript arrays are indexed
  with. Fractional and negative numbers, and indices from \<open>2 ^ 32 - 1\<close> upwards (which
  JavaScript treats as property names, not as array indices), are outside this model.
  A coordinate is the tuple \<open>[row, col]\<close>; the enum \<open>Coordinate\<close> names its two positions.
\<close>

type_synonym RowColIndex = nat
type_synonym CellCoordinate = "RowColIndex \<times> RowColIndex"
type_synonym CoordinateCollection = "CellCoordinate list"

definition Coordinate_Row :: "CellCoordinate \<Rightarrow> RowColIndex" where
  "Coordinate_Row c = fst c"

definition Coordinate_Column :: "CellCoordinate \<Rightarrow> RowColIndex" where
  "Coordinate_Column c = snd c"

text \<open>
  \<open>CellContent\<close> is \<open>string | number\<close>. Numbers are modelled by the integers.
\<close>

datatype CellContent = Str string | Num int

type_synonym CellPossibilities = "CellContent list"
type_synonym CellFixed = bool

text \<open>
  A cell is the tuple \<open>[possibilities, isFixed, coordinates]\<close>; the enum \<open>GameCell\<close> names
  its three positions.
\<close>

type_synonym Cell = "CellPossibilities \<times> CellFixed \<times> CellCoordinate"

definition GameCell_Possibilities :: "Cell \<Rightarrow> CellPossibilities" where
  "GameCell_Possibilities cell = fst cell"

definition GameCell_isFixed :: "Cell \<Rightarrow> CellFixed" where
  "GameCell_isFixed cell = fst (snd cell)"

definition GameCell_Coordinates :: "Cell \<Rightarrow> CellCoordinate" where
  "GameCell_Coordinates cell = snd (snd cell)"

record GameSettings =
  NAME :: string
  CELLRESULTS :: CellPossibilities
  MAXROW :: RowColIndex
  MAXCOL :: RowColIndex

subsection \<open>The zod schemas\<close>

text \<open>
  \<open>z.number().max(50).positive()\<close>,
  \<open>z.union([z.string().length(1), z.number().max(9)])\<close> and
  \<open>z.array(CellContentSchema).length(10)\<close>, each as the predicate of the values it
  accepts. In zod, \<open>.length(n)\<close> asks for exactly \<open>n\<close>, \<open>.max(n)\<close> for at most \<open>n\<close>.
\<close>

definition rowcolIndexSchema :: "int \<Rightarrow> bool" where
  "rowcolIndexSchema n \<longleftrightarrow> n \<le> 50 \<and> 0 < n"

definition CellContentSchema :: "CellContent \<Rightarrow> bool" where
  "CellContentSchema v = (case v of Str s \<Rightarrow> length s = 1 | Num n \<Rightarrow> n \<le> 9)"

definition CellPossibilitiesSchema :: "CellContent list \<Rightarrow> bool" where
  "CellPossibilitiesSchema ps \<longleftrightarrow> list_all CellContentSchema ps \<and> length ps = 10"

section \<open>JavaScript arrays\<close>

text \<open>
  An array is the list of its slots; a slot is \<open>None\<close> when it is empty (a hole, read
  as \<open>undefined\<close>). \<open>new Array(n)\<close> has \<open>n\<close> empty slots and raises a RangeError for a
  length that is not below \<open>2 ^ 32\<close>. Reading outside the array gives \<open>undefined\<close>;
  writing outside it extends the array with empty slots. \<open>Array.prototype.map\<close> calls
  its callback on the filled slots only and leaves the holes as they are.
  Reading a property of \<open>undefined\<close>, or writing one, raises a TypeError.
\<close>

datatype error = TypeError | RangeError

type_synonym 'a js_array = "'a option list"

definition Array_new :: "nat \<Rightarrow> error + 'a js_array" where
  "Array_new n = (if n < 2 ^ 32 then Inr (replicate n None) else Inl RangeError)"

definition js_keys :: "'a js_array \<Rightarrow> nat list" where
  "js_keys a = [0..<length a]"

definition js_get :: "'a js_array \<Rightarrow> nat \<Rightarrow> 'a option" where
  "js_get a i = (if i < length a then a ! i else None)"

definition js_set :: "'a js_array \<Rightarrow> nat \<Rightarrow> 'a \<Rightarrow> 'a js_array" where
  "js_set a i v =
     (if i < length a then a[i := Some v]
      else a @ replicate (i - length a) None @ [Some v])"

text \<open>\<open>a.map((value, index) => f(value, index))\<close> with a pure callback.\<close>

definition js_map :: "('a \<Rightarrow> nat \<Rightarrow> 'b) \<Rightarrow> 'a js_array \<Rightarrow> 'b js_array" where
  "js_map f a = map (\<lambda>(i, slot). map_option (\<lambda>v. f v i) slot) (enumerate 0 a)"

text \<open>
  The same with a callback that changes a state and may raise: the slots are visited
  in ascending order, from index \<open>i\<close> on, and the first exception ends the loop.
\<close>

fun js_map_from ::
  "('a \<Rightarrow> nat \<Rightarrow> 's \<Rightarrow> error + 'b \<times> 's) \<Rightarrow> nat \<Rightarrow> 'a js_array \<Rightarrow> 's \<Rightarrow> error + 'b js_array \<times> 's"
where
  "js_map_from f i [] s = Inr ([], s)"
| "js_map_from f i (None # a) s =
     (case js_map_from f (Suc i) a s of
        Inl e \<Rightarrow> Inl e
      | Inr (bs, s') \<Rightarrow> Inr (None # bs, s'))"
| "js_map_from f i (Some v # a) s =
     (case f v i s of
        Inl e \<Rightarrow> Inl e
      | Inr (b, s1) \<Rightarrow>
          (case js_map_from f (Suc i) a s1 of
             Inl e \<Rightarrow> Inl e
           | Inr (bs, s') \<Rightarrow> Inr (Some b # bs, s')))"

section \<open>The game field in the store\<close>

text \<open>
  \<open>setCellAt\<close> assigns into a row array in place, and two slots of the outer array may
  hold the same row array. So the rows live in a store, at addresses, and a game field
  is the outer array of the addresses of its rows. The outer array itself is never
  assigned to, and cells are replaced, never changed in place, so both are values.
\<close>

type_synonym addr = nat

record heap =
  rows :: "addr \<Rightarrow> Cell js_array"
  fresh :: addr

type_synonym GameField = "addr js_array"

definition alloc :: "Cell js_array \<Rightarrow> heap \<Rightarrow> addr \<times> heap" where
  "alloc row h = (fresh h, h\<lparr>rows := (rows h)(fresh h := row), fresh := Suc (fresh h)\<rparr>)"

definition empty_heap :: heap where
  "empty_heap = \<lparr>rows = (\<lambda>_. []), fresh = 0\<rparr>"

section \<open>The helpers (src/helpers/App.helpers.tsx)\<close>

text \<open>
  These are the helpers the application imports. src/App.Types.tsx holds an older copy
  of them, with the same \<open>cellAt\<close>, \<open>setCellAt\<close>, \<open>createCell\<close> and \<open>cellIsFound\<close>.
\<close>

definition isColumnCollection :: "CoordinateCollection \<Rightarrow> bool" where
  "isColumnCollection collection =
     (let columnCoordinates = map Coordinate_Column collection
      in case columnCoordinates of
           [] \<Rightarrow> True
         | first # _ \<Rightarrow> list_all (\<lambda>val. val = first) columnCoordinates)"

definition isRowCollection :: "CoordinateCollection \<Rightarrow> bool" where
  "isRowCollection collection =
     (let rowCoordinates = map Coordinate_Row collection
      in case rowCoordinates of
           [] \<Rightarrow> True
         | first # _ \<Rightarrow> list_all (\<lambda>val. val = first) rowCoordinates)"

text \<open>
  \<open>[...Array(maxRow).keys()]\<close> is the dense array \<open>0, ..., maxRow - 1\<close>: the key
  iterator visits the holes too.
\<close>

definition rowCollection :: "nat \<Rightarrow> RowColIndex \<Rightarrow> error + CoordinateCollection" where
  "rowCollection r maxRow =
     (case (Array_new maxRow :: error + unit js_array) of
        Inl e \<Rightarrow> Inl e
      | Inr a \<Rightarrow> Inr (map (\<lambda>itm. (r, itm)) (js_keys a)))"

definition colCollection :: "nat \<Rightarrow> RowColIndex \<Rightarrow> error + CoordinateCollection" where
  "colCollection c maxCol =
     (case (Array_new maxCol :: error + unit js_array) of
        Inl e \<Rightarrow> Inl e
      | Inr a \<Rightarrow> Inr (map (\<lambda>itm. (itm, c)) (js_keys a)))"

definition cellIsFound :: "Cell \<Rightarrow> bool" where
  "cellIsFound cell \<longleftrightarrow> length (GameCell_Possibilities cell) = 1"

definition cellCanNotBeChanged :: "Cell \<Rightarrow> bool" where
  "cellCanNotBeChanged cell = GameCell_isFixed cell"

text \<open>
  \<open>g[c[Coordinate.Row]][c[Coordinate.Column]]\<close>: a TypeError when \<open>g[row]\<close> is
  \<open>undefined\<close>, and otherwise whatever the row holds at the column, \<open>undefined\<close>
  (\<open>None\<close>) included.
\<close>

definition cellAt :: "CellCoordinate \<Rightarrow> GameField \<Rightarrow> heap \<Rightarrow> error + Cell option" where
  "cellAt c g h =
     (case js_get g (Coordinate_Row c) of
        None \<Rightarrow> Inl TypeError
      | Some a \<Rightarrow> Inr (js_get (rows h a) (Coordinate_Column c)))"

definition setCellAt :: "CellCoordinate \<Rightarrow> GameField \<Rightarrow> Cell \<Rightarrow> heap \<Rightarrow> error + heap" where
  "setCellAt c g cell h =
     (case js_get g (Coordinate_Row c) of
        None \<Rightarrow> Inl TypeError
      | Some a \<Rightarrow> Inr (h\<lparr>rows := (rows h)(a := js_set (rows h a) (Coordinate_Column c) cell)\<rparr>))"

definition createCell :: "CellPossibilities \<Rightarrow> CellFixed \<Rightarrow> CellCoordinate \<Rightarrow> Cell" where
  "createCell initialContent isFixed c = (initialContent, isFixed, c)"

subsection \<open>initializeGame\<close>

text \<open>What \<open>console.log\<close> and \<open>console.error\<close> are called with, in order.\<close>

datatype console_entry =
  Log_placing Cell
| Log_coordinate RowColIndex RowColIndex
| Error_several_possibilities

text \<open>
  The callback of the outer \<open>map\<close>: it makes a fresh array of \<open>MAXCOL\<close> slots, maps it
  to cells and returns the mapped array. The index of the outer array is the parameter
  the source calls \<open>colIndex\<close>, the index of the inner one is \<open>rowIndex\<close>.
\<close>

definition initializeGame_row ::
  "GameSettings \<Rightarrow> unit \<Rightarrow> nat \<Rightarrow> heap \<Rightarrow> error + addr \<times> heap"
where
  "initializeGame_row settings row colIndex h =
     (case (Array_new (MAXCOL settings) :: error + unit js_array) of
        Inl e \<Rightarrow> Inl e
      | Inr colCoords \<Rightarrow>
          Inr (alloc (js_map (\<lambda>col rowIndex.
                 createCell (CELLRESULTS settings) False (rowIndex, colIndex)) colCoords) h))"

text \<open>The callback of \<open>content.forEach\<close>, on the console output and the store.\<close>

definition initializeGame_place ::
  "GameField \<Rightarrow> Cell \<Rightarrow> console_entry list \<times> heap \<Rightarrow> console_entry list \<times> (error + heap)"
where
  "initializeGame_place g cell s =
     (let out = fst s @ [Log_placing cell];
          coordinate = GameCell_Coordinates cell
      in if cellIsFound cell then
           (out @ [Log_coordinate (Coordinate_Row coordinate) (Coordinate_Column coordinate)],
            setCellAt coordinate g cell (snd s))
         else (out @ [Error_several_possibilities], Inr (snd s)))"

fun initializeGame_forEach ::
  "GameField \<Rightarrow> Cell list \<Rightarrow> console_entry list \<times> heap \<Rightarrow> console_entry list \<times> (error + heap)"
where
  "initializeGame_forEach g [] s = (fst s, Inr (snd s))"
| "initializeGame_forEach g (cell # content) s =
     (case initializeGame_place g cell s of
        (out, Inl e) \<Rightarrow> (out, Inl e)
      | (out, Inr h) \<Rightarrow> initializeGame_forEach g content (out, h))"

definition initializeGame ::
  "Cell list \<Rightarrow> GameSettings \<Rightarrow> heap \<Rightarrow> console_entry list \<times> (error + GameField \<times> heap)"
where
  "initializeGame content settings h =
     (case (Array_new (MAXROW settings) :: error + unit js_array) of
        Inl e \<Rightarrow> ([], Inl e)
      | Inr a \<Rightarrow>
          (case js_map_from (initializeGame_row settings) 0 a h of
             Inl e \<Rightarrow> ([], Inl e)
           | Inr (g, h1) \<Rightarrow>
               (case initializeGame_forEach g content ([], h1) of
                  (out, Inl e) \<Rightarrow> (out, Inl e)
                | (out, Inr h2) \<Rightarrow> (out, Inr (g, h2)))))"

subsection \<open>src/Binario.tsx\<close>

definition binarioGameSettings :: GameSettings where
  "binarioGameSettings =
     \<lparr>NAME = ''Binario'', CELLRESULTS = [Num 0, Num 1], MAXROW = 12, MAXCOL = 12\<rparr>"

definition binarioExample :: "Cell list" where
  "binarioExample =
     [createCell [Str ''1''] True (0, 0),
      createCell [Str ''1''] True (3, 0),
      createCell [Str ''1''] True (4, 0),
      createCell [Str ''1''] True (1, 4),
      createCell [Str ''1''] True (1, 10),
      createCell [Str ''1''] True (2, 0),
      createCell [Str ''1''] True (2, 1),
      createCell [Str ''1''] True (3, 0),
      createCell [Str ''1''] True (3, 11),
      createCell [Str ''1''] True (4, 2),
      createCell [Str ''1''] True (5, 0),
      createCell [Str ''1''] True (5, 2)]"

section \<open>Properties of a game field, and example fields\<close>

text \<open>
  Every slot of the outer array holds a row, and every slot of every row holds a cell
  whose own coordinate is the position it is stored at.
\<close>

definition grid_coordinates_ok :: "GameField \<Rightarrow> heap \<Rightarrow> bool" where
  "grid_coordinates_ok g h =
     list_all (\<lambda>(r, slot). case slot of
         None \<Rightarrow> False
       | Some a \<Rightarrow> list_all (\<lambda>(c, s). case s of
             None \<Rightarrow> False
           | Some cell \<Rightarrow> GameCell_Coordinates cell = (r, c)) (enumerate 0 (rows h a)))
       (enumerate 0 g)"

text \<open>
  A field of two rows of two cells, the cell at \<open>(0, 0)\<close> fixed; and a field whose two
  row slots hold one and the same row array.
\<close>

definition fixed_cell :: Cell where
  "fixed_cell = ([Num 1], True, (0, 0))"

definition open_cell :: "CellCoordinate \<Rightarrow> Cell" where
  "open_cell c = ([Num 0, Num 1], False, c)"

definition other_cell :: Cell where
  "other_cell = ([Num 0], False, (0, 0))"

definition undetermined_cell :: Cell where
  "undetermined_cell = ([Num 0, Num 1], False, (0, 0))"

definition two_row_heap :: heap where
  "two_row_heap =
     \<lparr>rows = (\<lambda>_. [])(0 := [Some fixed_cell, Some (open_cell (0, 1))],
                       1 := [Some (open_cell (1, 0)), Some (open_cell (1, 1))]),
      fresh = 2\<rparr>"

definition two_row_field :: GameField where
  "two_row_field = [Some 0, Some 1]"

definition shared_field :: GameField where
  "shared_field = [Some 0, Some 0]"

section \<open>Lemmas on arrays and on the helpers\<close>

lemma js_get_js_set_same: "js_get (js_set a i v) i = Some v"
  by (simp add: js_get_def js_set_def nth_append)

lemma js_get_js_set_other: "j \<noteq> i \<Longrightarrow> js_get (js_set a i v) j = js_get a j"
  by (auto simp add: js_get_def js_set_def nth_append)

lemma js_map_from_holes:
  "js_map_from f i (replicate n None) s = Inr (replicate n None, s)"
  by (induction n arbitrary: i) simp_all

lemma list_all_enumerate:
  "list_all (\<lambda>(i, x). P i x) (enumerate n xs) \<longleftrightarrow> (\<forall>i<length xs. P (n + i) (xs ! i))"
  by (auto simp add: list_all_length nth_enumerate_eq)

lemma case_option_False:
  "(case slot of None \<Rightarrow> False | Some a \<Rightarrow> P a) \<longleftrightarrow> (\<exists>a. slot = Some a \<and> P a)"
  by (cases slot) simp_all

lemma grid_coordinates_ok_iff:
  "grid_coordinates_ok g h \<longleftrightarrow>
     (\<forall>r<length g. \<exists>a. g ! r = Some a \<and>
        (\<forall>c<length (rows h a). \<exists>cell. rows h a ! c = Some cell \<and> GameCell_Coordinates cell = (r, c)))"
  unfolding grid_coordinates_ok_def list_all_enumerate
  by (simp add: case_option_False)

lemma setCellAt_row:
  assumes "js_get g r = Some a"
  shows "setCellAt (r, col) g v h = Inr (h\<lparr>rows := (rows h)(a := js_set (rows h a) col v)\<rparr>)"
  using assms by (simp add: setCellAt_def Coordinate_Row_def Coordinate_Column_def)

lemma cellAt_after_set:
  "cellAt (r', col') g (h\<lparr>rows := (rows h)(a := js_set (rows h a) col v)\<rparr>) =
     (if js_get g r' = Some a \<and> col' = col then Inr (Some v) else cellAt (r', col') g h)"
  by (cases "js_get g r'")
    (simp_all add: cellAt_def Coordinate_Row_def Coordinate_Column_def
      js_get_js_set_same js_get_js_set_other)

lemmas example_defs =
  two_row_heap_def two_row_field_def shared_field_def fixed_cell_def open_cell_def other_cell_def

lemmas access_defs =
  cellAt_def setCellAt_def js_get_def js_set_def Coordinate_Row_def Coordinate_Column_def

section \<open>Coordinate collections\<close>

lemma isRowCollection_row: "isRowCollection (map (\<lambda>itm. (r, itm)) xs)"
  by (cases xs) (simp_all add: isRowCollection_def Coordinate_Row_def list_all_iff)

lemma isColumnCollection_row:
  assumes "0 < m"
  shows "isColumnCollection (map (\<lambda>itm. (r, itm)) [0..<m]) \<longleftrightarrow> m = 1"
proof -
  have cols: "map Coordinate_Column (map (\<lambda>itm. (r, itm)) [0..<m]) = [0..<m]"
    by (simp add: Coordinate_Column_def comp_def)
  from assms have "[0..<m] = 0 # [Suc 0..<m]"
    by (simp add: upt_conv_Cons)
  then have "isColumnCollection (map (\<lambda>itm. (r, itm)) [0..<m]) \<longleftrightarrow> (\<forall>x\<in>set [0..<m]. x = 0)"
    unfolding isColumnCollection_def cols Let_def by (simp add: list_all_iff)
  also have "\<dots> \<longleftrightarrow> (\<forall>x<m. x = 0)"
    by auto
  also from assms have "\<dots> \<longleftrightarrow> m = 1"
    by (metis One_nat_def Suc_lessI less_Suc0 less_numeral_extra(3) zero_less_one)
  finally show ?thesis .
qed

lemma rowCollection_eq:
  "m < 2 ^ 32 \<Longrightarrow> rowCollection r m = Inr (map (\<lambda>itm. (r, itm)) [0..<m])"
  by (simp add: rowCollection_def Array_new_def js_keys_def)

lemma colCollection_eq:
  "n < 2 ^ 32 \<Longrightarrow> colCollection c n = Inr (map (\<lambda>itm. (itm, c)) [0..<n])"
  by (simp add: colCollection_def Array_new_def js_keys_def)

text \<open>
  C7. For a bound \<open>m\<close> of at least 1 (and an array length, below \<open>2 ^ 32\<close>; the valid
  bounds are 1 to 50), \<open>rowCollection(r, m)\<close> is the sequence \<open>(r, 0), ..., (r, m - 1)\<close>,
  \<open>isRowCollection\<close> is true of it, and \<open>isColumnCollection\<close> is true of it exactly
  when \<open>m = 1\<close>, so false unless \<open>m = 1\<close>; \<open>colCollection(c, n)\<close> is the sequence
  \<open>(0, c), ..., (n - 1, c)\<close>.
\<close>

theorem collection_classification:
  assumes "0 < m" and "m < 2 ^ 32" and "n < 2 ^ 32"
  shows "(\<exists>cc. rowCollection r m = Inr cc \<and> cc = map (\<lambda>itm. (r, itm)) [0..<m]
            \<and> isRowCollection cc \<and> (isColumnCollection cc \<longleftrightarrow> m = 1))
         \<and> colCollection c n = Inr (map (\<lambda>itm. (itm, c)) [0..<n])"
  using assms
  by (simp add: rowCollection_eq colCollection_eq isRowCollection_row isColumnCollection_row)

theorem collection_classification_witness:
  "(0::nat) < 3 \<and> (3::nat) < 2 ^ 32 \<and> (2::nat) < 2 ^ 32
   \<and> rowCollection 5 3 = Inr [(5, 0), (5, 1), (5, 2)]
   \<and> isRowCollection [(5, 0), (5, 1), (5, 2)]
   \<and> \<not> isColumnCollection [(5, 0), (5, 1), (5, 2)]
   \<and> colCollection 7 2 = Inr [(0, 7), (1, 7)]"
proof -
  have u: "[0..<3] = [0, 1, 2]" "[0..<2] = [0, 1]"
    by (simp_all add: upt_rec)
  show ?thesis
    using collection_classification [of 3 2 5 7] by (simp add: u)
qed

section \<open>Cells and schemas\<close>

text \<open>
  C6, as stated, fails: \<open>createCell\<close> called with the fixed flag set and a possibilities
  list of two equal values returns the cell made of them.
\<close>

theorem createCell_invalid_returned:
  "createCell [Num 1, Num 1] True (0, 0) = ([Num 1, Num 1], True, (0, 0))
   \<and> length [Num 1, Num 1] \<noteq> 1 \<and> \<not> distinct [Num 1, Num 1]"
  by (simp add: createCell_def)

text \<open>
  C6, amended: \<open>createCell(p, f, c)\<close> checks nothing and never fails; for every
  possibilities list, fixed flag and coordinate it returns the cell with exactly those
  three components.
\<close>

theorem createCell_never_fails:
  "createCell p f c = (p, f, c)
   \<and> GameCell_Possibilities (createCell p f c) = p
   \<and> GameCell_isFixed (createCell p f c) = f
   \<and> GameCell_Coordinates (createCell p f c) = c"
  by (simp add: createCell_def GameCell_Possibilities_def GameCell_isFixed_def
      GameCell_Coordinates_def)

text \<open>
  The possibilities schema asks for exactly ten values, so it rejects the two-value
  domain of \<open>binarioGameSettings\<close>.
\<close>

lemma CellPossibilitiesSchema_binario:
  "\<not> CellPossibilitiesSchema (CELLRESULTS binarioGameSettings)"
  by (simp add: CellPossibilitiesSchema_def binarioGameSettings_def)

text \<open>
  C9, as stated, fails: the content schema accepts the negative number \<open>-1\<close>, and the
  possibilities schema rejects the two-value domain \<open>[0, 1]\<close>.
\<close>

theorem CellContentSchema_negative:
  "CellContentSchema (Num (- 1)) \<and> \<not> (0::int) \<le> - 1
   \<and> \<not> CellPossibilitiesSchema [Num 0, Num 1]"
  by (simp add: CellContentSchema_def CellPossibilitiesSchema_def)

text \<open>
  C9, amended: an accepted content value is a string of one character or a number of
  at most 9 (negative numbers included), and an accepted possibility domain has at
  most ten values, each of them an accepted content value.
\<close>

theorem schema_bounds:
  "(CellContentSchema v \<longleftrightarrow> (\<exists>ch. v = Str [ch]) \<or> (\<exists>n\<le>9. v = Num n))
   \<and> (CellPossibilitiesSchema ps \<longrightarrow> length ps \<le> 10 \<and> (\<forall>x\<in>set ps. CellContentSchema x))"
proof -
  have "CellContentSchema v \<longleftrightarrow> (\<exists>ch. v = Str [ch]) \<or> (\<exists>n\<le>9. v = Num n)"
    by (cases v) (auto simp add: CellContentSchema_def length_Suc_conv)
  moreover have "CellPossibilitiesSchema ps \<longrightarrow> length ps \<le> 10 \<and> (\<forall>x\<in>set ps. CellContentSchema x)"
    by (simp add: CellPossibilitiesSchema_def list_all_iff)
  ultimately show ?thesis by simp
qed

theorem schema_bounds_witness:
  "CellPossibilitiesSchema (map Num [0, 1, 2, 3, 4, 5, 6, 7, 8, 9])
   \<and> length (map Num [0, 1, 2, 3, 4, 5, 6, 7, 8, 9]) \<le> 10
   \<and> CellContentSchema (Num 9)"
proof -
  have h: "CellPossibilitiesSchema (map Num [0, 1, 2, 3, 4, 5, 6, 7, 8, 9])"
    by (simp add: CellPossibilitiesSchema_def CellContentSchema_def)
  with schema_bounds [of "Num 9" "map Num [0, 1, 2, 3, 4, 5, 6, 7, 8, 9]"]
  show ?thesis by simp
qed

section \<open>Reading and writing cells\<close>

text \<open>
  C8, as stated, fails: in the two-by-two field, reading column 2 of row 0 is out of
  bounds and returns \<open>undefined\<close> without failing.
\<close>

theorem cellAt_column_outside:
  "cellAt (0, 2) two_row_field two_row_heap = Inr None
   \<and> \<not> 2 < length (rows two_row_heap 0)"
  by (simp add: access_defs example_defs)

text \<open>
  C8, amended: \<open>cellAt\<close> returns what is stored at the position when the coordinate is
  in bounds; when the row exists and the column is outside the row it returns
  \<open>undefined\<close> and does not fail; when the row index is outside the field, or the row
  slot is empty, it fails with a TypeError.
\<close>

theorem cellAt_outcomes:
  "(r < length g \<and> g ! r = Some a \<and> col < length (rows h a)
      \<longrightarrow> cellAt (r, col) g h = Inr (rows h a ! col))
   \<and> (r < length g \<and> g ! r = Some a \<and> length (rows h a) \<le> col
      \<longrightarrow> cellAt (r, col) g h = Inr None)
   \<and> (length g \<le> r \<or> (r < length g \<and> g ! r = None)
      \<longrightarrow> cellAt (r, col) g h = Inl TypeError)"
  by (auto simp add: cellAt_def js_get_def Coordinate_Row_def Coordinate_Column_def)

theorem cellAt_outcomes_witness:
  "cellAt (0, 0) two_row_field two_row_heap = Inr (Some fixed_cell)
   \<and> cellAt (1, 3) two_row_field two_row_heap = Inr None
   \<and> cellAt (2, 0) two_row_field two_row_heap = Inl TypeError
   \<and> cellAt (1, 0) [Some 0, None] two_row_heap = Inl TypeError"
  using cellAt_outcomes [of 0 two_row_field 0 0 two_row_heap]
    cellAt_outcomes [of 1 two_row_field 1 3 two_row_heap]
    cellAt_outcomes [of 2 two_row_field 0 0 two_row_heap]
    cellAt_outcomes [of 1 "[Some 0, None]" 0 0 two_row_heap]
  by (simp add: two_row_heap_def two_row_field_def)

text \<open>
  C3, as stated, fails: the cell at \<open>(0, 0)\<close> of the two-by-two field is fixed;
  \<open>setCellAt\<close> with a different cell does not fail, and afterwards the position holds
  the new cell, with another possibilities list.
\<close>

theorem setCellAt_fixed_cell_overwritten:
  "cellAt (0, 0) two_row_field two_row_heap = Inr (Some fixed_cell)
   \<and> GameCell_isFixed fixed_cell
   \<and> setCellAt (0, 0) two_row_field other_cell two_row_heap
       = Inr (two_row_heap\<lparr>rows := (rows two_row_heap)(0 := [Some other_cell, Some (open_cell (0, 1))])\<rparr>)
   \<and> cellAt (0, 0) two_row_field
        (two_row_heap\<lparr>rows := (rows two_row_heap)(0 := [Some other_cell, Some (open_cell (0, 1))])\<rparr>)
       = Inr (Some other_cell)
   \<and> GameCell_Possibilities other_cell \<noteq> GameCell_Possibilities fixed_cell"
  by (simp add: access_defs example_defs GameCell_isFixed_def GameCell_Possibilities_def)

text \<open>
  C3, amended: \<open>setCellAt\<close> never looks at the fixed flag and has no
  FixedCellMutationError. When the existing cell at \<open>c\<close> is fixed, \<open>setCellAt(c, g, v)\<close>
  succeeds for every cell \<open>v\<close> and the position then holds \<open>v\<close>.
\<close>

theorem setCellAt_ignores_fixed:
  assumes "cellAt c g h = Inr (Some old)" and "GameCell_isFixed old"
  shows "\<exists>h'. setCellAt c g v h = Inr h' \<and> cellAt c g h' = Inr (Some v)"
proof -
  obtain r col where c: "c = (r, col)" by (cases c)
  from assms(1) obtain a where a: "js_get g r = Some a"
    by (auto simp add: c cellAt_def Coordinate_Row_def split: option.splits)
  let ?h' = "h\<lparr>rows := (rows h)(a := js_set (rows h a) col v)\<rparr>"
  have "setCellAt c g v h = Inr ?h'"
    unfolding c by (rule setCellAt_row [OF a])
  moreover have "cellAt c g ?h' = Inr (Some v)"
    unfolding c by (simp add: cellAt_after_set a)
  ultimately show ?thesis
    by (intro exI [of _ ?h'] conjI)
qed

theorem setCellAt_ignores_fixed_witness:
  "cellAt (0, 0) two_row_field two_row_heap = Inr (Some fixed_cell)
   \<and> GameCell_isFixed fixed_cell
   \<and> (\<exists>h'. setCellAt (0, 0) two_row_field other_cell two_row_heap = Inr h'
          \<and> cellAt (0, 0) two_row_field h' = Inr (Some other_cell))"
proof -
  have 1: "cellAt (0, 0) two_row_field two_row_heap = Inr (Some fixed_cell)"
    by (simp add: access_defs two_row_heap_def two_row_field_def)
  have 2: "GameCell_isFixed fixed_cell"
    by (simp add: GameCell_isFixed_def fixed_cell_def)
  from setCellAt_ignores_fixed [OF 1 2, of other_cell] 1 2 show ?thesis
    by (intro conjI)
qed

text \<open>
  C10, as stated, fails: when both row slots hold the same array, writing at \<open>(0, 0)\<close>
  changes what \<open>cellAt\<close> returns at \<open>(1, 0)\<close>.
\<close>

theorem setCellAt_shared_row:
  "cellAt (1, 0) shared_field two_row_heap = Inr (Some fixed_cell)
   \<and> setCellAt (0, 0) shared_field other_cell two_row_heap
       = Inr (two_row_heap\<lparr>rows := (rows two_row_heap)(0 := [Some other_cell, Some (open_cell (0, 1))])\<rparr>)
   \<and> cellAt (1, 0) shared_field
        (two_row_heap\<lparr>rows := (rows two_row_heap)(0 := [Some other_cell, Some (open_cell (0, 1))])\<rparr>)
       = Inr (Some other_cell)
   \<and> other_cell \<noteq> fixed_cell"
  by (simp add: access_defs example_defs)

text \<open>
  C10, amended: for an in-bounds coordinate \<open>c\<close>, \<open>setCellAt(c, g, v)\<close> succeeds, then
  \<open>cellAt(c, g)\<close> returns \<open>v\<close>, and \<open>cellAt(c', g)\<close> returns the same as before for every
  other coordinate \<open>c'\<close> that is in \<open>c\<close>'s row or whose row slot does not hold the array
  of \<open>c\<close>'s row; so for every other coordinate when no two row slots share an array.
\<close>

theorem setCellAt_frame:
  assumes "r < length g" and "g ! r = Some a" and "col < length (rows h a)"
  shows "\<exists>h'. setCellAt (r, col) g v h = Inr h'
           \<and> cellAt (r, col) g h' = Inr (Some v)
           \<and> (\<forall>r' col'. (r', col') \<noteq> (r, col) \<longrightarrow> (r' = r \<or> js_get g r' \<noteq> Some a)
                \<longrightarrow> cellAt (r', col') g h' = cellAt (r', col') g h)"
proof -
  from assms(1,2) have a: "js_get g r = Some a"
    by (simp add: js_get_def)
  let ?h' = "h\<lparr>rows := (rows h)(a := js_set (rows h a) col v)\<rparr>"
  have 1: "setCellAt (r, col) g v h = Inr ?h'"
    by (rule setCellAt_row [OF a])
  have 2: "cellAt (r, col) g ?h' = Inr (Some v)"
    by (simp add: cellAt_after_set a)
  have 3: "\<forall>r' col'. (r', col') \<noteq> (r, col) \<longrightarrow> (r' = r \<or> js_get g r' \<noteq> Some a)
      \<longrightarrow> cellAt (r', col') g ?h' = cellAt (r', col') g h"
  proof (intro allI impI)
    fix r' col'
    assume "(r', col') \<noteq> (r, col)" and "r' = r \<or> js_get g r' \<noteq> Some a"
    then have "\<not> (js_get g r' = Some a \<and> col' = col)"
      by auto
    then show "cellAt (r', col') g ?h' = cellAt (r', col') g h"
      by (simp only: cellAt_after_set if_False)
  qed
  from 1 2 3 show ?thesis
    by (intro exI [of _ ?h'] conjI)
qed

theorem setCellAt_frame_witness:
  "0 < length two_row_field \<and> two_row_field ! 0 = Some 0
   \<and> 0 < length (rows two_row_heap 0)
   \<and> (\<exists>h'. setCellAt (0, 0) two_row_field other_cell two_row_heap = Inr h'
          \<and> cellAt (0, 0) two_row_field h' = Inr (Some other_cell)
          \<and> cellAt (0, 1) two_row_field h' = Inr (Some (open_cell (0, 1)))
          \<and> cellAt (1, 0) two_row_field h' = Inr (Some (open_cell (1, 0))))"
proof -
  have 1: "0 < length two_row_field" by (simp add: two_row_field_def)
  have 2: "two_row_field ! 0 = Some 0" by (simp add: two_row_field_def)
  have 3: "0 < length (rows two_row_heap 0)" by (simp add: two_row_heap_def)
  have 4: "js_get two_row_field 1 \<noteq> Some 0" by (simp add: js_get_def two_row_field_def)
  have 5: "cellAt (0, 1) two_row_field two_row_heap = Inr (Some (open_cell (0, 1)))"
    by (simp add: access_defs two_row_heap_def two_row_field_def)
  have 6: "cellAt (1, 0) two_row_field two_row_heap = Inr (Some (open_cell (1, 0)))"
    by (simp add: access_defs two_row_heap_def two_row_field_def)
  from setCellAt_frame [OF 1 2 3, of other_cell] obtain h' where
    h': "setCellAt (0, 0) two_row_field other_cell two_row_heap = Inr h'"
      "cellAt (0, 0) two_row_field h' = Inr (Some other_cell)"
      "\<forall>r' col'. (r', col') \<noteq> (0, 0) \<longrightarrow> (r' = 0 \<or> js_get two_row_field r' \<noteq> Some 0)
          \<longrightarrow> cellAt (r', col') two_row_field h' = cellAt (r', col') two_row_field two_row_heap"
    by (elim exE conjE) (rule that)
  from h'(3) 5 have 7: "cellAt (0, 1) two_row_field h' = Inr (Some (open_cell (0, 1)))"
    by simp
  from h'(3) 4 6 have 8: "cellAt (1, 0) two_row_field h' = Inr (Some (open_cell (1, 0)))"
    by simp
  from h'(1,2) 7 8 have "\<exists>h'. setCellAt (0, 0) two_row_field other_cell two_row_heap = Inr h'
          \<and> cellAt (0, 0) two_row_field h' = Inr (Some other_cell)
          \<and> cellAt (0, 1) two_row_field h' = Inr (Some (open_cell (0, 1)))
          \<and> cellAt (1, 0) two_row_field h' = Inr (Some (open_cell (1, 0)))"
    by (intro exI [of _ h'] conjI)
  with 1 2 3 show ?thesis by (intro conjI)
qed

section \<open>initializeGame\<close>

lemma Array_new_MAXROW_binario:
  "(Array_new (MAXROW binarioGameSettings) :: error + unit js_array) = Inr (replicate 12 None)"
  by (simp add: binarioGameSettings_def Array_new_def)

lemma initializeGame_forEach_out:
  "snd (initializeGame_forEach g content (out1, h)) = snd (initializeGame_forEach g content (out2, h))"
proof (induction content arbitrary: out1 out2 h)
  case Nil
  show ?case by simp
next
  case (Cons cell content)
  show ?case
  proof (cases "cellIsFound cell")
    case True
    show ?thesis
    proof (cases "setCellAt (GameCell_Coordinates cell) g cell h")
      case (Inl e)
      with True show ?thesis by (simp add: initializeGame_place_def Let_def)
    next
      case (Inr h')
      with True Cons.IH show ?thesis by (simp add: initializeGame_place_def Let_def)
    qed
  next
    case False
    with Cons.IH show ?thesis by (simp add: initializeGame_place_def Let_def)
  qed
qed

lemma initializeGame_place_unfound:
  "\<not> cellIsFound cell \<Longrightarrow>
     initializeGame_place g cell (out, h) = (out @ [Log_placing cell, Error_several_possibilities], Inr h)"
  by (simp add: initializeGame_place_def Let_def)

lemma initializeGame_forEach_skip:
  assumes "\<not> cellIsFound cell"
  shows "snd (initializeGame_forEach g (xs @ cell # ys) (out, h)) =
         snd (initializeGame_forEach g (xs @ ys) (out, h))"
proof (induction xs arbitrary: out h)
  case Nil
  from assms have "snd (initializeGame_forEach g (cell # ys) (out, h)) =
      snd (initializeGame_forEach g ys (out @ [Log_placing cell, Error_several_possibilities], h))"
    by (simp add: initializeGame_place_unfound)
  also have "\<dots> = snd (initializeGame_forEach g ys (out, h))"
    by (rule initializeGame_forEach_out)
  finally show ?case by simp
next
  case (Cons x xs)
  show ?case
  proof (cases "initializeGame_place g x (out, h)")
    case (Pair out' r)
    then show ?thesis using Cons.IH by (cases r) simp_all
  qed
qed

lemma initializeGame_result:
  "snd (initializeGame content settings h) =
     (case (Array_new (MAXROW settings) :: error + unit js_array) of
        Inl e \<Rightarrow> Inl e
      | Inr a \<Rightarrow>
          (case js_map_from (initializeGame_row settings) 0 a h of
             Inl e \<Rightarrow> Inl e
           | Inr (g, h1) \<Rightarrow>
               (case snd (initializeGame_forEach g content ([], h1)) of
                  Inl e \<Rightarrow> Inl e
                | Inr h2 \<Rightarrow> Inr (g, h2))))"
  by (simp add: initializeGame_def split: sum.splits prod.splits)

text \<open>
  The outer array is made of holes, so \<open>map\<close> never calls the callback that would
  build a row: whatever the content, \<open>initializeGame\<close> returns an outer array of
  \<open>MAXROW\<close> empty slots, or fails with a TypeError at the first found cell it places.
\<close>

lemma setCellAt_holes: "setCellAt c (replicate n None) cell h = Inl TypeError"
  by (simp add: setCellAt_def js_get_def)

lemma initializeGame_forEach_holes:
  "snd (initializeGame_forEach (replicate n None) content (out, h)) =
     (if list_ex cellIsFound content then Inl TypeError else Inr h)"
  by (induction content arbitrary: out)
    (simp_all add: initializeGame_place_def Let_def setCellAt_holes)

lemma initializeGame_no_rows:
  assumes "MAXROW settings < 2 ^ 32"
  shows "snd (initializeGame content settings h) =
     (if list_ex cellIsFound content then Inl TypeError
      else Inr (replicate (MAXROW settings) None, h))"
  using assms
  by (simp add: initializeGame_result Array_new_def js_map_from_holes initializeGame_forEach_holes)

lemma initializeGame_binarioExample:
  "snd (initializeGame binarioExample binarioGameSettings empty_heap) = Inl TypeError"
proof -
  have "MAXROW binarioGameSettings < 2 ^ 32"
    by (simp add: binarioGameSettings_def)
  moreover have "list_ex cellIsFound binarioExample"
    by (simp add: binarioExample_def createCell_def cellIsFound_def GameCell_Possibilities_def)
  ultimately show ?thesis
    by (simp add: initializeGame_no_rows)
qed

text \<open>
  C1. The code does not do what the claim says: for the Binario settings and no initial
  cells, \<open>initializeGame\<close> returns an outer array of twelve empty slots. It holds no row
  and no cell, and reading the cell at \<open>(0, 0)\<close> raises a TypeError.
\<close>

theorem initializeGame_empty_has_no_cells:
  "initializeGame [] binarioGameSettings empty_heap = ([], Inr (replicate 12 None, empty_heap))
   \<and> cellAt (0, 0) (replicate 12 None) empty_heap = Inl TypeError"
proof -
  have "initializeGame [] binarioGameSettings empty_heap = ([], Inr (replicate 12 None, empty_heap))"
    unfolding initializeGame_def Array_new_MAXROW_binario by (simp add: js_map_from_holes)
  moreover have "cellAt (0, 0) (replicate 12 None) empty_heap = Inl TypeError"
    by (simp add: cellAt_def js_get_def Coordinate_Row_def)
  ultimately show ?thesis by simp
qed

text \<open>
  C5, as stated, fails: with one initial cell of two possibilities, \<open>initializeGame\<close>
  does not fail; it writes the error message to the console and returns the grid.
\<close>

theorem initializeGame_unfound_no_failure:
  "length (GameCell_Possibilities undetermined_cell) > 1
   \<and> initializeGame [undetermined_cell] binarioGameSettings empty_heap
       = ([Log_placing undetermined_cell, Error_several_possibilities],
          Inr (replicate 12 None, empty_heap))"
proof -
  have "\<not> cellIsFound undetermined_cell"
    by (simp add: cellIsFound_def undetermined_cell_def GameCell_Possibilities_def)
  then have "initializeGame [undetermined_cell] binarioGameSettings empty_heap
       = ([Log_placing undetermined_cell, Error_several_possibilities],
          Inr (replicate 12 None, empty_heap))"
    unfolding initializeGame_def Array_new_MAXROW_binario
    by (simp add: js_map_from_holes initializeGame_place_unfound)
  moreover have "length (GameCell_Possibilities undetermined_cell) > 1"
    by (simp add: undetermined_cell_def GameCell_Possibilities_def)
  ultimately show ?thesis by simp
qed

text \<open>
  C5, amended: an initial cell whose possibilities list does not have exactly one value
  is skipped. The callback logs the cell, writes the \<open>console.error\<close> message and
  leaves the store as it is, and the result of \<open>initializeGame\<close> (the grid or the
  failure) is the result it has without that cell.
\<close>

theorem initializeGame_skips_unfound:
  assumes "\<not> cellIsFound cell"
  shows "initializeGame_place g cell (out, h)
           = (out @ [Log_placing cell, Error_several_possibilities], Inr h)
         \<and> snd (initializeGame (xs @ cell # ys) settings h0)
           = snd (initializeGame (xs @ ys) settings h0)"
proof -
  have "snd (initializeGame (xs @ cell # ys) settings h0) = snd (initializeGame (xs @ ys) settings h0)"
    unfolding initializeGame_result initializeGame_forEach_skip [OF assms] ..
  with initializeGame_place_unfound [OF assms] show ?thesis by simp
qed

theorem initializeGame_skips_unfound_witness:
  "\<not> cellIsFound undetermined_cell
   \<and> initializeGame_place two_row_field undetermined_cell ([], two_row_heap)
       = ([Log_placing undetermined_cell, Error_several_possibilities], Inr two_row_heap)
   \<and> snd (initializeGame [undetermined_cell] binarioGameSettings empty_heap)
       = snd (initializeGame [] binarioGameSettings empty_heap)"
proof -
  have 1: "\<not> cellIsFound undetermined_cell"
    by (simp add: cellIsFound_def undetermined_cell_def GameCell_Possibilities_def)
  from initializeGame_skips_unfound [OF 1, of two_row_field "[]" two_row_heap "[]" "[]"
      binarioGameSettings empty_heap] 1
  show ?thesis by simp
qed

section \<open>The coordinate invariant\<close>

lemma grid_coordinates_ok_holes: "0 < n \<Longrightarrow> \<not> grid_coordinates_ok (replicate n None) h"
  unfolding grid_coordinates_ok_iff by auto

text \<open>
  C2, as stated, fails, twice. The grid \<open>initializeGame\<close> returns for the Binario
  settings has twelve empty row slots, so no in-bounds position holds a cell. And in
  the two-by-two field, where every cell carries the coordinate of its position,
  \<open>setCellAt\<close> at \<open>(0, 0)\<close> with a cell whose own coordinate is \<open>(0, 1)\<close> succeeds, and
  then the cell stored at \<open>(0, 0)\<close> carries \<open>(0, 1)\<close>.
\<close>

theorem setCellAt_breaks_coordinates:
  "snd (initializeGame [] binarioGameSettings empty_heap) = Inr (replicate 12 None, empty_heap)
   \<and> \<not> grid_coordinates_ok (replicate 12 None) empty_heap
   \<and> grid_coordinates_ok two_row_field two_row_heap
   \<and> setCellAt (0, 0) two_row_field (open_cell (0, 1)) two_row_heap
       = Inr (two_row_heap\<lparr>rows := (rows two_row_heap)(0 := [Some (open_cell (0, 1)), Some (open_cell (0, 1))])\<rparr>)
   \<and> cellAt (0, 0) two_row_field
        (two_row_heap\<lparr>rows := (rows two_row_heap)(0 := [Some (open_cell (0, 1)), Some (open_cell (0, 1))])\<rparr>)
       = Inr (Some (open_cell (0, 1)))
   \<and> GameCell_Coordinates (open_cell (0, 1)) \<noteq> (0, 0)
   \<and> \<not> grid_coordinates_ok two_row_field
        (two_row_heap\<lparr>rows := (rows two_row_heap)(0 := [Some (open_cell (0, 1)), Some (open_cell (0, 1))])\<rparr>)"
proof -
  have "snd (initializeGame [] binarioGameSettings empty_heap) = Inr (replicate 12 None, empty_heap)"
    by (simp add: initializeGame_no_rows binarioGameSettings_def)
  moreover have "\<not> grid_coordinates_ok (replicate 12 None) empty_heap"
    by (simp add: grid_coordinates_ok_holes)
  moreover have "grid_coordinates_ok two_row_field two_row_heap"
    by (simp add: grid_coordinates_ok_def example_defs GameCell_Coordinates_def)
  moreover have "setCellAt (0, 0) two_row_field (open_cell (0, 1)) two_row_heap
       = Inr (two_row_heap\<lparr>rows := (rows two_row_heap)(0 := [Some (open_cell (0, 1)), Some (open_cell (0, 1))])\<rparr>)"
    by (simp add: access_defs two_row_heap_def two_row_field_def)
  moreover have "cellAt (0, 0) two_row_field
        (two_row_heap\<lparr>rows := (rows two_row_heap)(0 := [Some (open_cell (0, 1)), Some (open_cell (0, 1))])\<rparr>)
       = Inr (Some (open_cell (0, 1)))"
    by (simp add: access_defs two_row_field_def)
  moreover have "GameCell_Coordinates (open_cell (0, 1)) \<noteq> (0, 0)"
    by (simp add: GameCell_Coordinates_def open_cell_def)
  moreover have "\<not> grid_coordinates_ok two_row_field
        (two_row_heap\<lparr>rows := (rows two_row_heap)(0 := [Some (open_cell (0, 1)), Some (open_cell (0, 1))])\<rparr>)"
    by (simp add: grid_coordinates_ok_def two_row_field_def GameCell_Coordinates_def open_cell_def)
  ultimately show ?thesis
    by (intro conjI)
qed

text \<open>
  C2, amended: \<open>setCellAt\<close> does not compare the coordinate it is given with the
  coordinate inside the cell. When every position of the grid holds a cell that carries
  the coordinate of its position, \<open>c\<close> is in bounds and the cell \<open>v\<close> carries the
  coordinate \<open>c\<close>, then \<open>setCellAt(c, g, v)\<close> succeeds and every position still holds a
  cell that carries the coordinate of its position.
\<close>

theorem setCellAt_keeps_coordinates:
  assumes ok: "grid_coordinates_ok g h"
    and r: "r < length g" and a: "g ! r = Some a" and col: "col < length (rows h a)"
    and v: "GameCell_Coordinates v = (r, col)"
  shows "\<exists>h'. setCellAt (r, col) g v h = Inr h' \<and> grid_coordinates_ok g h'"
proof -
  let ?h' = "h\<lparr>rows := (rows h)(a := js_set (rows h a) col v)\<rparr>"
  from r a have get: "js_get g r = Some a"
    by (simp add: js_get_def)
  have set: "js_set (rows h a) col v = (rows h a)[col := Some v]"
    using col by (simp add: js_set_def)
  have "grid_coordinates_ok g ?h'"
    unfolding grid_coordinates_ok_iff
  proof (intro allI impI)
    fix r' assume r': "r' < length g"
    with ok obtain a' where a': "g ! r' = Some a'"
      and cells: "\<forall>c<length (rows h a'). \<exists>cell. rows h a' ! c = Some cell \<and> GameCell_Coordinates cell = (r', c)"
      unfolding grid_coordinates_ok_iff by blast
    show "\<exists>a. g ! r' = Some a \<and> (\<forall>c<length (rows ?h' a).
            \<exists>cell. rows ?h' a ! c = Some cell \<and> GameCell_Coordinates cell = (r', c))"
    proof (cases "a' = a")
      case False
      with a' cells show ?thesis by simp
    next
      case True
      from ok r a col obtain cell where "rows h a ! col = Some cell" "GameCell_Coordinates cell = (r, col)"
        unfolding grid_coordinates_ok_iff by fastforce
      moreover from cells True col obtain cell' where "rows h a ! col = Some cell'"
        "GameCell_Coordinates cell' = (r', col)" by blast
      ultimately have "r' = r" by simp
      have "\<forall>c<length (rows ?h' a). \<exists>cell. rows ?h' a ! c = Some cell \<and> GameCell_Coordinates cell = (r', c)"
      proof (intro allI impI)
        fix c assume c: "c < length (rows ?h' a)"
        then have c': "c < length (rows h a)" by (simp add: set)
        show "\<exists>cell. rows ?h' a ! c = Some cell \<and> GameCell_Coordinates cell = (r', c)"
        proof (cases "c = col")
          case True
          with c' v \<open>r' = r\<close> show ?thesis by (simp add: set)
        next
          case False
          with c' cells \<open>a' = a\<close> show ?thesis by (simp add: set)
        qed
      qed
      with a' True show ?thesis by blast
    qed
  qed
  with setCellAt_row [OF get] show ?thesis
    by (intro exI [of _ ?h'] conjI)
qed

theorem setCellAt_keeps_coordinates_witness:
  "grid_coordinates_ok two_row_field two_row_heap
   \<and> 0 < length two_row_field \<and> two_row_field ! 0 = Some 0
   \<and> 0 < length (rows two_row_heap 0)
   \<and> GameCell_Coordinates other_cell = (0, 0)
   \<and> (\<exists>h'. setCellAt (0, 0) two_row_field other_cell two_row_heap = Inr h'
          \<and> grid_coordinates_ok two_row_field h')"
proof -
  have 1: "grid_coordinates_ok two_row_field two_row_heap"
    by (simp add: grid_coordinates_ok_def example_defs GameCell_Coordinates_def)
  have 2: "0 < length two_row_field" by (simp add: two_row_field_def)
  have 3: "two_row_field ! 0 = Some 0" by (simp add: two_row_field_def)
  have 4: "0 < length (rows two_row_heap 0)" by (simp add: two_row_heap_def)
  have 5: "GameCell_Coordinates other_cell = (0, 0)"
    by (simp add: GameCell_Coordinates_def other_cell_def)
  from setCellAt_keeps_coordinates [OF 1 2 3 4 5] 1 2 3 4 5 show ?thesis
    by (intro conjI)
qed

end
